theory Spec2Isabelle
  imports Complex_Main
begin

section \<open>PaiScore: a shallow embedding of the scoring engine (PaiScoreV3.py)\<close>

text \<open>
  The embedding follows \<^verbatim>\<open>src/PaiScoreV3.py\<close>. Python floats are modelled by
  \<^typ>\<open>real\<close> (exact arithmetic, no rounding); Python's unbounded integers by
  \<^typ>\<open>int\<close>; exceptions by the left summand of a sum type; the mutable
  \<^verbatim>\<open>PaiSystem\<close> object by a record that every operation takes and returns.
  A \<^verbatim>\<open>User\<close> object lives in the registry under exactly one key for its whole life
  and is never replaced there, so a reference to it is modelled by that key and its
  mutation by an update of the registry entry.
\<close>

subsection \<open>Exceptions\<close>

datatype error =
    ValueError_not_defined string   \<comment> \<open>ValueError: Action type '...' is not defined.\<close>
  | ValueError_type_mismatch string \<comment> \<open>ValueError: User '...' type mismatch.\<close>
  | KeyError string                 \<comment> \<open>a missing key of \<^verbatim>\<open>self.users\<close>\<close>
  | OverflowError                   \<comment> \<open>date value out of range\<close>

subsection \<open>Dates\<close>

text \<open>
  A \<^verbatim>\<open>datetime.date\<close> is represented by its proleptic Gregorian ordinal
  (\<^verbatim>\<open>date.toordinal()\<close>, day 1 is 0001-01-01). Comparison of dates is comparison of
  ordinals, \<^verbatim>\<open>(d1 - d2).days\<close> is their difference, and subtracting a
  \<^verbatim>\<open>timedelta(days=n)\<close> subtracts \<open>n\<close> and raises OverflowError outside
  the supported range of years 1 to 9999. The attributes \<^verbatim>\<open>year\<close> and
  \<^verbatim>\<open>month\<close> are read off the ordinal by the calendar conversion of the datetime
  module.
\<close>

type_synonym date = int

definition MINORD :: int where "MINORD = 1"
definition MAXORD :: int where "MAXORD = 3652059"

definition DAYS_IN_MONTH :: "int list" where
  "DAYS_IN_MONTH = [-1, 31, 28, 31, 30, 31, 30, 31, 31, 30, 31, 30, 31]"

definition DAYS_BEFORE_MONTH :: "int list" where
  "DAYS_BEFORE_MONTH = [-1, 0, 31, 59, 90, 120, 151, 181, 212, 243, 273, 304, 334]"

definition ord2ymd :: "int \<Rightarrow> int \<times> int \<times> int" where
  "ord2ymd ordinal =
     (let n = ordinal - 1;
          n400 = n div 146097; r400 = n mod 146097;
          n100 = r400 div 36524; r100 = r400 mod 36524;
          n4 = r100 div 1461; r4 = r100 mod 1461;
          n1 = r4 div 365; r1 = r4 mod 365;
          year = n400 * 400 + 1 + n100 * 100 + n4 * 4 + n1
      in if n1 = 4 \<or> n100 = 4 then (year - 1, 12, 31)
         else
           (let leapyear = (n1 = 3 \<and> (n4 \<noteq> 24 \<or> n100 = 3));
                month = (r1 + 50) div 32;
                preceding = DAYS_BEFORE_MONTH ! nat month
                            + (if month > 2 \<and> leapyear then 1 else 0)
            in if preceding > r1
               then (let month' = month - 1;
                         preceding' = preceding
                            - (DAYS_IN_MONTH ! nat month'
                               + (if month' = 2 \<and> leapyear then 1 else 0))
                     in (year, month', r1 - preceding' + 1))
               else (year, month, r1 - preceding + 1)))"

definition date_year :: "date \<Rightarrow> int" where
  "date_year d = fst (ord2ymd d)"

definition date_month :: "date \<Rightarrow> int" where
  "date_month d = fst (snd (ord2ymd d))"

definition date_sub_days :: "date \<Rightarrow> int \<Rightarrow> error + date" where
  "date_sub_days d n =
     (let ordinal = d - n
      in if MINORD \<le> ordinal \<and> ordinal \<le> MAXORD then Inr ordinal else Inl OverflowError)"

subsection \<open>The event catalog and the tier table\<close>

text \<open>
  One entry of \<^verbatim>\<open>ACTION_WEIGHTS\<close>. The keys \<^verbatim>\<open>score\<close>, \<^verbatim>\<open>decay\<close>,
  \<^verbatim>\<open>allowed_for\<close> and \<^verbatim>\<open>affects_target\<close> occur in every entry; the keys
  \<^verbatim>\<open>target_score\<close> and \<^verbatim>\<open>delay_factor\<close> are optional. The key
  \<^verbatim>\<open>score\<close> is called \<open>action_score\<close> here, apart from the score of a user.
\<close>

record action_info =
  action_score :: real
  target_score :: "real option"
  decay :: real
  allowed_for :: "string list"
  affects_target :: bool
  delay_factor :: "real option"

definition mk_info ::
  "real \<Rightarrow> real option \<Rightarrow> real \<Rightarrow> string list \<Rightarrow> bool \<Rightarrow> real option \<Rightarrow> action_info" where
  "mk_info s t d al af df =
     \<lparr>action_score = s, target_score = t, decay = d, allowed_for = al,
      affects_target = af, delay_factor = df\<rparr>"

definition ACTION_WEIGHTS_items :: "(string \<times> action_info) list" where
  "ACTION_WEIGHTS_items =
   [(''LOGIN'', mk_info 0.5 None 0.05 [''common'', ''advertiser''] False None),
    (''AD_LIKED'', mk_info 1.0 (Some 2.0) 0.03 [''common''] True (Some 0.97)),
    (''POSITIVE_COMMENT'', mk_info 2.0 (Some 2.5) 0.02 [''common''] True (Some 0.98)),
    (''AD_SHARED'', mk_info 4.0 (Some 3.0) 0.01 [''common'', ''advertiser''] True (Some 0.98)),
    (''AD_VISITED'', mk_info 0.3 (Some 1.5) 0.07 [''common''] True (Some 0.96)),
    (''GAINED_FOLLOWER'', mk_info 5.0 None 0.01 [''advertiser''] False None),
    (''FOLLOWED_USER'', mk_info 0.7 (Some 1.5) 0.08 [''common'', ''advertiser''] True None),
    (''SENT_MESSAGE'', mk_info 1.0 None 0.03 [''common'', ''advertiser''] False None),
    (''RECEIVED_MESSAGE'', mk_info 0.5 None 0.03 [''common'', ''advertiser''] False None),
    (''RESPONDED_TO_MESSAGE'', mk_info 1.2 None 0.03 [''advertiser''] False None),
    (''ADDED_TO_FAVOURITES'', mk_info 4.0 (Some 1.0) 0.01 [''common''] True (Some 0.97)),
    (''VISITED_PROFILE'', mk_info 0.4 (Some 0.4) 0.06 [''common''] True None),
    (''AD_POSTED_FREE'', mk_info 4.0 None 0.02 [''advertiser''] False None),
    (''AD_POSTED_PAI'', mk_info 8.0 None 0.01 [''advertiser''] False None),
    (''AD_POSTED_MONEY'', mk_info 15.0 None 0.005 [''advertiser''] False None),
    (''RESPONDED_TO_REVIEW'', mk_info 1.0 (Some 0.5) 0.02 [''advertiser''] True (Some 0.99)),
    (''GAVE_RATING'', mk_info 1.5 None 0.04 [''common''] False None),
    (''RECEIVED_RATING'', mk_info 3.5 None 0.02 [''advertiser''] False None),
    (''VERIFIED_PROFILE'', mk_info 10.0 None 0.0 [''common'', ''advertiser''] False None),
    (''REVIEW_RECEIVED'', mk_info 2.0 None 0.02 [''advertiser''] False None),
    (''AD_BLOCKED'', mk_info (-5.0) None 0.0 [''advertiser''] False None),
    (''AD_REPORTED'', mk_info (-6.0) None 0.0 [''common''] False None),
    (''REPORTED_ADVERTISER'', mk_info (-20.0) None 0.0 [''advertiser''] False None),
    (''INACTIVITY'', mk_info (-3.0) None 0.0 [''common'', ''advertiser''] False None)]"

definition ACTION_WEIGHTS :: "string \<rightharpoonup> action_info" where
  "ACTION_WEIGHTS = map_of ACTION_WEIGHTS_items"

record badge_info =
  badge_name :: string
  perks :: string

text \<open>\<^verbatim>\<open>BADGE_LEVELS\<close>, in the insertion order in which the dictionary is scanned.\<close>

definition BADGE_LEVELS :: "((int \<times> int) \<times> badge_info) list" where
  "BADGE_LEVELS =
   [((0, 29), \<lparr>badge_name = ''New'', perks = ''No PAI coin trade, limited ads''\<rparr>),
    ((30, 59), \<lparr>badge_name = ''Explorer'', perks = ''Can view all ads, earn coins''\<rparr>),
    ((60, 79), \<lparr>badge_name = ''Trusted'', perks = ''Can trade coins, appear higher in feed''\<rparr>),
    ((80, 94), \<lparr>badge_name = ''Elite'', perks = ''Premium ads, faster rewards''\<rparr>),
    ((95, 100), \<lparr>badge_name = ''Ambassador'',
                 perks = ''First access, spotlight ads, bonus coins''\<rparr>)]"

definition MAX_AGE_SCORE_CONTRIBUTION :: real where
  "MAX_AGE_SCORE_CONTRIBUTION = 20"

subsection \<open>UserAction\<close>

record user_action =
  action_type :: string
  date :: date
  actor :: bool
  weights :: action_info
  delay_days :: int

text \<open>
  \<^verbatim>\<open>UserAction.__init__\<close>. Every caller in the repository passes a date, so the
  default \<^verbatim>\<open>date or datetime.date.today()\<close> is not taken and the date is a plain
  argument.
\<close>

definition UserAction_init :: "string \<Rightarrow> date \<Rightarrow> bool \<Rightarrow> int \<Rightarrow> error + user_action" where
  "UserAction_init atype d act dd =
     (case ACTION_WEIGHTS atype of
        None \<Rightarrow> Inl (ValueError_not_defined atype)
      | Some w \<Rightarrow>
          Inr \<lparr>action_type = atype, date = d, actor = act, weights = w, delay_days = dd\<rparr>)"

definition get_effective_score :: "user_action \<Rightarrow> date \<Rightarrow> real" where
  "get_effective_score a current =
     (let days_old = current - date a;
          base_score = (if actor a then action_score (weights a)
                        else (case target_score (weights a) of Some t \<Rightarrow> t | None \<Rightarrow> 0));
          dec = decay (weights a);
          dfactor = (case delay_factor (weights a) of Some f \<Rightarrow> f | None \<Rightarrow> 1);
          score0 = base_score;
          score1 = (if dec > 0 then score0 * (1 - dec) ^ nat (max days_old 0) else score0);
          score2 = (if delay_days a > 0 \<and> dfactor < 1
                    then score1 * dfactor ^ nat (delay_days a) else score1)
      in score2)"

subsection \<open>User\<close>

record user =
  name :: string
  type :: "string option"
  creation_date :: date
  action_history :: "user_action list"
  score :: real
  badge :: "badge_info option"
  age_score_component :: real
  last_action_date :: "date option"

definition User_init :: "string \<Rightarrow> date \<Rightarrow> string option \<Rightarrow> user" where
  "User_init n cd ut =
     \<lparr>name = n, type = ut, creation_date = cd, action_history = [], score = 0,
      badge = None, age_score_component = 0, last_action_date = None\<rparr>"

definition add_action :: "user \<Rightarrow> string \<Rightarrow> date \<Rightarrow> bool \<Rightarrow> int \<Rightarrow> error + user" where
  "add_action u atype d act dd =
     (case UserAction_init atype d act dd of
        Inl e \<Rightarrow> Inl e
      | Inr a \<Rightarrow>
          (let u1 = u\<lparr>action_history := action_history u @ [a]\<rparr>
           in Inr (case last_action_date u1 of
                     None \<Rightarrow> u1\<lparr>last_action_date := Some d\<rparr>
                   | Some l \<Rightarrow> if d > l then u1\<lparr>last_action_date := Some d\<rparr> else u1)))"

subsection \<open>PaiSystem\<close>

record pai_system =
  users :: "string \<rightharpoonup> user"
  history_days :: int
  inactivity_days :: int
  current_date :: date

text \<open>A value is truthy as a role class when it is neither None nor the empty string.\<close>

definition truthy :: "string option \<Rightarrow> bool" where
  "truthy x = (case x of None \<Rightarrow> False | Some s \<Rightarrow> s \<noteq> [])"

definition get_or_create_user ::
  "pai_system \<Rightarrow> string \<Rightarrow> string option \<Rightarrow> date option \<Rightarrow> error + (pai_system \<times> user)" where
  "get_or_create_user s n ut cd =
     (case users s n of
        None \<Rightarrow>
          (let u = User_init n (case cd of Some c \<Rightarrow> c | None \<Rightarrow> current_date s) ut
           in Inr (s\<lparr>users := (users s)(n \<mapsto> u)\<rparr>, u))
      | Some u \<Rightarrow>
          if truthy ut \<and> type u \<noteq> ut then Inl (ValueError_type_mismatch n)
          else Inr (s, u))"

text \<open>The scan of the tier table: the first range that contains the score wins.\<close>

fun scan_badge_levels :: "((int \<times> int) \<times> badge_info) list \<Rightarrow> real \<Rightarrow> badge_info option" where
  "scan_badge_levels [] sc = None"
| "scan_badge_levels (((min_score, max_score), badge_info) # rest) sc =
     (if real_of_int min_score \<le> sc \<and> sc \<le> real_of_int max_score then Some badge_info
      else scan_badge_levels rest sc)"

definition get_badge_for_score :: "real \<Rightarrow> badge_info option" where
  "get_badge_for_score sc =
     (case scan_badge_levels BADGE_LEVELS sc of
        Some badge_info \<Rightarrow> Some badge_info
      | None \<Rightarrow>
          if sc > 100 then map_of BADGE_LEVELS (95, 100)
          else if sc < 0 then map_of BADGE_LEVELS (0, 29)
          else None)"

definition calculate_age_score :: "pai_system \<Rightarrow> user \<Rightarrow> user \<times> real" where
  "calculate_age_score s u =
     (let total_months = (date_year (current_date s) - date_year (creation_date u)) * 12
                         + (date_month (current_date s) - date_month (creation_date u));
          account_age_years = real_of_int total_months / 12;
          age_multiplier = (if account_age_years \<ge> 8 then 0.5
                            else if account_age_years \<ge> 5 then 0.4
                            else if account_age_years \<ge> 2 then 0.3
                            else 0.15);
          u' = u\<lparr>age_score_component := MAX_AGE_SCORE_CONTRIBUTION * age_multiplier\<rparr>
      in (u', age_score_component u'))"

definition update_user_score :: "pai_system \<Rightarrow> string \<Rightarrow> error + pai_system" where
  "update_user_score s user_name =
     (case users s user_name of
        None \<Rightarrow> Inl (KeyError user_name)
      | Some u \<Rightarrow>
          (case date_sub_days (current_date s) (history_days s) of
             Inl e \<Rightarrow> Inl e
           | Inr cutoff \<Rightarrow>
               (let u1 = u\<lparr>action_history := filter (\<lambda>a. date a \<ge> cutoff) (action_history u)\<rparr>;
                    sc = sum_list (map (\<lambda>a. get_effective_score a (current_date s))
                                       (action_history u1));
                    (u2, age_score) = calculate_age_score s u1;
                    final_score = max 0 (min 100 (sc + age_score));
                    u3 = u2\<lparr>score := final_score\<rparr>;
                    u4 = u3\<lparr>badge := get_badge_for_score (score u3)\<rparr>
                in Inr (s\<lparr>users := (users s)(user_name \<mapsto> u4)\<rparr>))))"

subsection \<open>The dispatcher\<close>

text \<open>
  \<^verbatim>\<open>handle_user_action\<close>. The result is the new system together with the value
  returned to the caller: \<open>None\<close> for Python's None, \<open>Some n\<close> for the User
  object stored under the key \<open>n\<close> of the registry, whose state the caller reads
  there. When the call raises, the model gives the exception only. The parameters
  \<^verbatim>\<open>action_type\<close>, \<^verbatim>\<open>creation_date\<close>, \<^verbatim>\<open>delay_days\<close> and
  \<^verbatim>\<open>target_delay_days\<close> are written \<open>atype\<close>, \<open>cdate\<close>, \<open>dd\<close> and
  \<open>tdd\<close>, the first three names being fields of the records above.
\<close>

definition handle_user_action ::
  "pai_system \<Rightarrow> string \<Rightarrow> string \<Rightarrow> string option \<Rightarrow> date option \<Rightarrow> date option
   \<Rightarrow> string option \<Rightarrow> string option \<Rightarrow> date option \<Rightarrow> int \<Rightarrow> int
   \<Rightarrow> error + (pai_system \<times> string option)" where
  "handle_user_action s user_name atype user_type action_date cdate
       target_user_name target_user_type target_creation_date dd tdd =
     (let adate = (case action_date of Some d \<Rightarrow> d | None \<Rightarrow> current_date s)
      in case ACTION_WEIGHTS atype of
           None \<Rightarrow> Inr (s, None)
         | Some info \<Rightarrow>
             (case get_or_create_user s user_name user_type cdate of
                Inl e \<Rightarrow> Inl e
              | Inr (s1, actor0) \<Rightarrow>
                  if type actor0 \<notin> Some ` set (allowed_for info) then Inr (s1, Some user_name)
                  else
                    (case add_action actor0 atype adate True dd of
                       Inl e \<Rightarrow> Inl e
                     | Inr actor1 \<Rightarrow>
                         (case update_user_score (s1\<lparr>users := (users s1)(user_name \<mapsto> actor1)\<rparr>)
                                 (name actor1) of
                            Inl e \<Rightarrow> Inl e
                          | Inr s3 \<Rightarrow>
                              if affects_target info then
                                (case target_user_name of
                                   None \<Rightarrow> Inr (s3, Some user_name)
                                 | Some tn \<Rightarrow>
                                     if tn = [] then Inr (s3, Some user_name)
                                     else
                                       (case get_or_create_user s3 tn target_user_type
                                               target_creation_date of
                                          Inl e \<Rightarrow> Inl e
                                        | Inr (s4, target0) \<Rightarrow>
                                            (case add_action target0 atype adate False
                                                    (if tdd \<noteq> 0 then tdd else dd) of
                                               Inl e \<Rightarrow> Inl e
                                             | Inr target1 \<Rightarrow>
                                                 (case update_user_score
                                                         (s4\<lparr>users := (users s4)(tn \<mapsto> target1)\<rparr>)
                                                         (name target1) of
                                                    Inl e \<Rightarrow> Inl e
                                                  | Inr s6 \<Rightarrow> Inr (s6, Some user_name)))))
                              else Inr (s3, Some user_name)))))"

subsection \<open>Auxiliary notions used in the statements\<close>

text \<open>
  The whole-month account age read by \<^verbatim>\<open>_calculate_age_score\<close>, the sum of the
  effective scores of a history, and the state in which a recompute leaves a user, given
  the cutoff date.
\<close>

definition total_months :: "pai_system \<Rightarrow> user \<Rightarrow> int" where
  "total_months s u = (date_year (current_date s) - date_year (creation_date u)) * 12
                         + (date_month (current_date s) - date_month (creation_date u))"

definition activity_sum :: "date \<Rightarrow> user_action list \<Rightarrow> real" where
  "activity_sum cur h = sum_list (map (\<lambda>a. get_effective_score a cur) h)"

definition rescored :: "pai_system \<Rightarrow> date \<Rightarrow> user \<Rightarrow> user" where
  "rescored s cutoff u =
     (let h = filter (\<lambda>a. date a \<ge> cutoff) (action_history u);
          b = snd (calculate_age_score s u);
          f = max 0 (min 100 (activity_sum (current_date s) h + b))
      in u\<lparr>action_history := h, age_score_component := b, score := f,
           badge := get_badge_for_score f\<rparr>)"

text \<open>
  The registry stores every user under its own name: \<^verbatim>\<open>get_or_create_user\<close> is the
  only place that adds an entry, and it adds \<^verbatim>\<open>User(name, ...)\<close> under \<^verbatim>\<open>name\<close>.
\<close>

definition well_named :: "pai_system \<Rightarrow> bool" where
  "well_named s = (\<forall>n u. users s n = Some u \<longrightarrow> name u = n)"

subsection \<open>Example states\<close>

text \<open>
  The demonstration driver starts its clock on 2025-07-18 (ordinal 739450) with an empty
  registry, a history window of 30 days and an inactivity threshold of 7 days.
\<close>

definition example_system :: pai_system where
  "example_system =
     \<lparr>users = Map.empty, history_days = 30, inactivity_days = 7, current_date = 739450\<rparr>"

text \<open>
  An advertiser created on 2015-01-01 (ordinal 735599) with a login 50 days before the
  current date and an ad posted on the current date, not yet recomputed.
\<close>

definition stale_login :: user_action where
  "stale_login =
     \<lparr>action_type = ''LOGIN'', date = 739400, actor = True,
      weights = mk_info 0.5 None 0.05 [''common'', ''advertiser''] False None,
      delay_days = 0\<rparr>"

definition fresh_post :: user_action where
  "fresh_post =
     \<lparr>action_type = ''AD_POSTED_PAI'', date = 739450, actor = True,
      weights = mk_info 8.0 None 0.01 [''advertiser''] False None, delay_days = 0\<rparr>"

definition kavita :: user where
  "kavita =
     \<lparr>name = ''Kavita'', type = Some ''advertiser'', creation_date = 735599,
      action_history = [stale_login, fresh_post], score = 0, badge = None,
      age_score_component = 0, last_action_date = Some 739450\<rparr>"

definition example_registry :: pai_system where
  "example_registry = example_system\<lparr>users := [''Kavita'' \<mapsto> kavita]\<rparr>"

text \<open>The same advertiser and registry after a recompute.\<close>

definition kavita_rescored :: user where
  "kavita_rescored =
     kavita\<lparr>action_history := [fresh_post], score := 18,
            badge := Some \<lparr>badge_name = ''New'', perks = ''No PAI coin trade, limited ads''\<rparr>,
            age_score_component := 10\<rparr>"

definition example_recomputed :: pai_system where
  "example_recomputed = example_system\<lparr>users := [''Kavita'' \<mapsto> kavita_rescored]\<rparr>"

text \<open>A participant created on the current date.\<close>

definition newcomer :: user where
  "newcomer = User_init ''Trupti'' 739450 (Some ''common'')"

text \<open>
  A like recorded for the liked advertiser ten days before the current date, three days
  after the ad was posted.
\<close>

definition late_like :: user_action where
  "late_like =
     \<lparr>action_type = ''AD_LIKED'', date = 739440, actor = False,
      weights = mk_info 1.0 (Some 2.0) 0.03 [''common''] True (Some 0.97), delay_days = 3\<rparr>"

text \<open>The two records of a like submitted on the current date with no delay.\<close>

definition like_of_actor :: user_action where
  "like_of_actor =
     \<lparr>action_type = ''AD_LIKED'', date = 739450, actor = True,
      weights = mk_info 1.0 (Some 2.0) 0.03 [''common''] True (Some 0.97), delay_days = 0\<rparr>"

definition like_of_target :: user_action where
  "like_of_target =
     \<lparr>action_type = ''AD_LIKED'', date = 739450, actor = False,
      weights = mk_info 1.0 (Some 2.0) 0.03 [''common''] True (Some 0.97), delay_days = 0\<rparr>"

text \<open>
  An advertiser created on the current date, and three records of that date: a paid ad,
  a coin ad and a received rating.
\<close>

definition posted_money :: user_action where
  "posted_money =
     \<lparr>action_type = ''AD_POSTED_MONEY'', date = 739450, actor = True,
      weights = mk_info 15.0 None 0.005 [''advertiser''] False None, delay_days = 0\<rparr>"

definition posted_pai :: user_action where
  "posted_pai =
     \<lparr>action_type = ''AD_POSTED_PAI'', date = 739450, actor = True,
      weights = mk_info 8.0 None 0.01 [''advertiser''] False None, delay_days = 0\<rparr>"

definition received_rating :: user_action where
  "received_rating =
     \<lparr>action_type = ''RECEIVED_RATING'', date = 739450, actor = True,
      weights = mk_info 3.5 None 0.02 [''advertiser''] False None, delay_days = 0\<rparr>"

definition asha :: "user_action list \<Rightarrow> real \<Rightarrow> badge_info option \<Rightarrow> user" where
  "asha h sc b =
     \<lparr>name = ''Asha'', type = Some ''advertiser'', creation_date = 739450,
      action_history = h, score = sc, badge = b, age_score_component = 3,
      last_action_date = Some 739450\<rparr>"

definition badge_New :: badge_info where
  "badge_New = \<lparr>badge_name = ''New'', perks = ''No PAI coin trade, limited ads''\<rparr>"

text \<open>
  The driver's way of calling the dispatcher: role class given, every other optional
  argument left at its default; a sequence of such calls stops at the first exception.
\<close>

definition submit :: "pai_system \<Rightarrow> string \<Rightarrow> string \<Rightarrow> string \<Rightarrow> error + pai_system" where
  "submit s user_name atype user_type =
     (case handle_user_action s user_name atype (Some user_type) None None None None None 0 0 of
        Inl e \<Rightarrow> Inl e
      | Inr (s', _) \<Rightarrow> Inr s')"

fun submit_all :: "pai_system \<Rightarrow> (string \<times> string \<times> string) list \<Rightarrow> error + pai_system" where
  "submit_all s [] = Inr s"
| "submit_all s ((user_name, atype, user_type) # rest) =
     (case submit s user_name atype user_type of
        Inl e \<Rightarrow> Inl e
      | Inr s' \<Rightarrow> submit_all s' rest)"


section \<open>Properties\<close>

subsection \<open>Helper lemmas\<close>

lemmas calendar_defs =
  ord2ymd_def DAYS_BEFORE_MONTH_def DAYS_IN_MONTH_def date_year_def date_month_def

lemmas dispatcher_defs =
  handle_user_action_def get_or_create_user_def User_init_def add_action_def
  UserAction_init_def update_user_score_def date_sub_days_def MINORD_def MAXORD_def
  calculate_age_score_def get_effective_score_def MAX_AGE_SCORE_CONTRIBUTION_def
  get_badge_for_score_def BADGE_LEVELS_def truthy_def mk_info_def

lemma catalog_entry:
  "ACTION_WEIGHTS t = Some i \<Longrightarrow> (t, i) \<in> set ACTION_WEIGHTS_items"
  unfolding ACTION_WEIGHTS_def by (rule map_of_SomeD)

lemma catalog_delay_factor_lt_1:
  assumes "ACTION_WEIGHTS t = Some i" and "delay_factor i = Some f"
  shows "f < 1"
  using catalog_entry [OF assms(1)] assms(2)
  by (auto simp: ACTION_WEIGHTS_items_def mk_info_def)

lemma catalog_lookups:
  "ACTION_WEIGHTS ''AD_LIKED'' = Some (mk_info 1.0 (Some 2.0) 0.03 [''common''] True (Some 0.97))"
  "ACTION_WEIGHTS ''AD_POSTED_MONEY'' = Some (mk_info 15.0 None 0.005 [''advertiser''] False None)"
  "ACTION_WEIGHTS ''AD_POSTED_PAI'' = Some (mk_info 8.0 None 0.01 [''advertiser''] False None)"
  "ACTION_WEIGHTS ''RECEIVED_RATING'' = Some (mk_info 3.5 None 0.02 [''advertiser''] False None)"
  "ACTION_WEIGHTS ''TELEPORT'' = None"
  by (simp_all add: ACTION_WEIGHTS_def ACTION_WEIGHTS_items_def)

lemma example_year_month:
  "date_year 739450 = 2025" "date_month 739450 = 7"
  "date_year 735599 = 2015" "date_month 735599 = 1"
  by (simp_all add: calendar_defs Let_def)

lemma age_score_snd:
  "snd (calculate_age_score s u) =
     20 * (if real_of_int (total_months s u) / 12 \<ge> 8 then 0.5
           else if real_of_int (total_months s u) / 12 \<ge> 5 then 0.4
           else if real_of_int (total_months s u) / 12 \<ge> 2 then 0.3 else 0.15)"
  by (simp add: calculate_age_score_def total_months_def Let_def MAX_AGE_SCORE_CONTRIBUTION_def)

lemma age_score_fst:
  "fst (calculate_age_score s u) = u\<lparr>age_score_component := snd (calculate_age_score s u)\<rparr>"
  by (simp add: calculate_age_score_def Let_def)

lemma age_score_frame:
  "creation_date u' = creation_date u \<Longrightarrow> current_date s' = current_date s \<Longrightarrow>
   snd (calculate_age_score s' u') = snd (calculate_age_score s u)"
  by (simp add: calculate_age_score_def Let_def)

lemma date_sub_days_Inr: "date_sub_days d n = Inr c \<Longrightarrow> c = d - n"
  by (auto simp: date_sub_days_def Let_def split: if_splits)

text \<open>
  A recompute of a registered user returns whenever the cutoff date is in range, and
  it leaves that user as \<open>rescored\<close> describes.
\<close>

lemma update_user_score_Some:
  assumes "users s n = Some u"
    and "date_sub_days (current_date s) (history_days s) = Inr c"
  shows "update_user_score s n = Inr (s\<lparr>users := (users s)(n \<mapsto> rescored s c u)\<rparr>)"
proof -
  let ?u1 = "u\<lparr>action_history := filter (\<lambda>a. date a \<ge> c) (action_history u)\<rparr>"
  have b: "snd (calculate_age_score s ?u1) = snd (calculate_age_score s u)"
    by (rule age_score_frame) simp_all
  obtain u2 b2 where c2: "calculate_age_score s ?u1 = (u2, b2)" by (cases "calculate_age_score s ?u1")
  have u2: "u2 = ?u1\<lparr>age_score_component := b2\<rparr>" using age_score_fst [of s ?u1] c2 by simp
  have b2: "b2 = snd (calculate_age_score s u)" using b c2 by simp
  show ?thesis
    using assms c2 by (simp add: update_user_score_def rescored_def Let_def activity_sum_def u2 b2)
qed

lemma update_user_score_InrD:
  assumes "update_user_score s n = Inr s'"
  obtains u c where "users s n = Some u"
    and "date_sub_days (current_date s) (history_days s) = Inr c"
    and "s' = s\<lparr>users := (users s)(n \<mapsto> rescored s c u)\<rparr>"
proof (cases "users s n")
  case None
  with assms show ?thesis by (simp add: update_user_score_def)
next
  case (Some u)
  show ?thesis
  proof (cases "date_sub_days (current_date s) (history_days s)")
    case (Inl e)
    with assms Some show ?thesis by (simp add: update_user_score_def)
  next
    case (Inr c)
    from update_user_score_Some [OF Some Inr] assms that Some Inr show ?thesis by simp
  qed
qed

lemma rescored_facts:
  "action_history (rescored s c u) = filter (\<lambda>a. c \<le> date a) (action_history u)"
  "score (rescored s c u) =
     max 0 (min 100 (activity_sum (current_date s) (filter (\<lambda>a. c \<le> date a) (action_history u))
                     + snd (calculate_age_score s u)))"
  "badge (rescored s c u) = get_badge_for_score (score (rescored s c u))"
  "name (rescored s c u) = name u" "type (rescored s c u) = type u"
  "creation_date (rescored s c u) = creation_date u"
  by (simp_all add: rescored_def Let_def)

lemma get_or_create_user_new:
  "users s n = None \<Longrightarrow>
   get_or_create_user s n ut cd =
     Inr (s\<lparr>users := (users s)(n \<mapsto> User_init n (case cd of Some c \<Rightarrow> c | None \<Rightarrow> current_date s) ut)\<rparr>,
          User_init n (case cd of Some c \<Rightarrow> c | None \<Rightarrow> current_date s) ut)"
  by (simp add: get_or_create_user_def Let_def)

lemma get_or_create_user_old:
  "users s n = Some u \<Longrightarrow> \<not> (truthy ut \<and> type u \<noteq> ut) \<Longrightarrow>
   get_or_create_user s n ut cd = Inr (s, u)"
  by (simp add: get_or_create_user_def)

lemma get_or_create_user_InrD:
  assumes "get_or_create_user s n ut cd = Inr (s1, a)"
  shows "users s1 n = Some a"
    and "s1\<lparr>users := (users s1)(n \<mapsto> x)\<rparr> = s\<lparr>users := (users s)(n \<mapsto> x)\<rparr>"
    and "current_date s1 = current_date s" and "history_days s1 = history_days s"
    and "m \<noteq> n \<Longrightarrow> users s1 m = users s m"
    and "case users s n of Some u \<Rightarrow> s1 = s \<and> a = u
         | None \<Rightarrow> a = User_init n (case cd of Some c \<Rightarrow> c | None \<Rightarrow> current_date s) ut
                   \<and> s1 = s\<lparr>users := (users s)(n \<mapsto> a)\<rparr>"
  using assms
  by (auto simp: get_or_create_user_def Let_def split: option.splits if_splits)

lemma get_or_create_user_transfer:
  assumes "get_or_create_user s n ut cd = Inr (sx, t0)"
    and "users s' n = users s n" and "current_date s' = current_date s"
  shows "\<exists>s4. get_or_create_user s' n ut cd = Inr (s4, t0) \<and>
           (\<forall>x. s4\<lparr>users := (users s4)(n \<mapsto> x)\<rparr> = s'\<lparr>users := (users s')(n \<mapsto> x)\<rparr>)"
  using assms
  by (auto simp: get_or_create_user_def Let_def split: option.splits if_splits)

lemma add_action_catalog:
  assumes "ACTION_WEIGHTS t = Some info"
  shows "\<exists>u1. add_action u t d act dd = Inr u1 \<and>
          action_history u1 = action_history u @
             [\<lparr>action_type = t, date = d, actor = act, weights = info, delay_days = dd\<rparr>] \<and>
          name u1 = name u \<and> creation_date u1 = creation_date u \<and> type u1 = type u"
  using assms
  by (auto simp: add_action_def UserAction_init_def Let_def split: option.splits)

text \<open>
  The empty registry stores every user under its own name, and every call of the
  dispatcher that returns keeps it so.
\<close>

lemma well_named_empty: "well_named example_system"
  by (simp add: well_named_def example_system_def)

lemma well_named_update:
  "well_named s \<Longrightarrow> name u = n \<Longrightarrow> well_named (s\<lparr>users := (users s)(n \<mapsto> u)\<rparr>)"
  by (simp add: well_named_def)

lemma well_named_get_or_create_user:
  assumes "well_named s" and "get_or_create_user s n ut cd = Inr (s1, a)"
  shows "well_named s1" and "name a = n"
  using assms
  by (auto simp: get_or_create_user_def well_named_def User_init_def Let_def
           split: option.splits if_splits)

lemma add_action_name: "add_action u t d act dd = Inr u1 \<Longrightarrow> name u1 = name u"
  by (auto simp: add_action_def Let_def split: sum.splits option.splits if_splits)

lemma well_named_update_user_score:
  assumes "well_named s" and "update_user_score s n = Inr s'"
  shows "well_named s'"
proof -
  from assms(2) obtain u c where u: "users s n = Some u"
    and s': "s' = s\<lparr>users := (users s)(n \<mapsto> rescored s c u)\<rparr>"
    by (rule update_user_score_InrD)
  have "name (rescored s c u) = n" using assms(1) u by (simp add: rescored_facts well_named_def)
  with assms(1) show ?thesis unfolding s' by (rule well_named_update)
qed

lemma well_named_step:
  assumes wn: "well_named s1" and na: "name a0 = n"
    and add: "add_action a0 t d act dd = Inr a1"
    and up: "update_user_score (s1\<lparr>users := (users s1)(n \<mapsto> a1)\<rparr>) (name a1) = Inr s3"
  shows "well_named s3"
proof -
  have "name a1 = n" using add_action_name [OF add] na by simp
  then have "well_named (s1\<lparr>users := (users s1)(n \<mapsto> a1)\<rparr>)"
    using wn by (simp add: well_named_update)
  then show ?thesis using up by (rule well_named_update_user_score)
qed

lemma well_named_handle_user_action:
  assumes wn: "well_named s"
    and h: "handle_user_action s user_name atype user_type action_date cdate
              target_user_name target_user_type target_cdate dd tdd = Inr (s', r)"
  shows "well_named s'"
proof (cases "ACTION_WEIGHTS atype")
  case None
  with h wn show ?thesis by (simp add: handle_user_action_def)
next
  case (Some info)
  let ?adate = "case action_date of Some d \<Rightarrow> d | None \<Rightarrow> current_date s"
  show ?thesis
  proof (cases "get_or_create_user s user_name user_type cdate")
    case (Inl e)
    with h Some show ?thesis by (simp add: handle_user_action_def)
  next
    case (Inr p)
    obtain s1 a0 where p: "p = (s1, a0)" by (cases p)
    have g: "get_or_create_user s user_name user_type cdate = Inr (s1, a0)"
      using Inr p by simp
    note w1 = well_named_get_or_create_user [OF wn g]
    show ?thesis
    proof (cases "type a0 \<in> Some ` set (allowed_for info)")
      case False
      with h Some g w1 show ?thesis by (simp add: handle_user_action_def)
    next
      case True
      show ?thesis
      proof (cases "add_action a0 atype ?adate True dd")
        case (Inl e)
        with h Some g True show ?thesis by (simp add: handle_user_action_def)
      next
        case add: (Inr a1)
        show ?thesis
        proof (cases "update_user_score (s1\<lparr>users := (users s1)(user_name \<mapsto> a1)\<rparr>) (name a1)")
          case (Inl e)
          with h Some g True add show ?thesis by (simp add: handle_user_action_def)
        next
          case up: (Inr s3)
          have w3: "well_named s3" using w1 add up by (rule well_named_step)
          have h3: "(if affects_target info then
                      (case target_user_name of
                         None \<Rightarrow> Inr (s3, Some user_name)
                       | Some tn \<Rightarrow>
                           if tn = [] then Inr (s3, Some user_name)
                           else
                             (case get_or_create_user s3 tn target_user_type target_cdate of
                                Inl e \<Rightarrow> Inl e
                              | Inr (s4, target0) \<Rightarrow>
                                  (case add_action target0 atype ?adate False
                                          (if tdd \<noteq> 0 then tdd else dd) of
                                     Inl e \<Rightarrow> Inl e
                                   | Inr target1 \<Rightarrow>
                                       (case update_user_score
                                               (s4\<lparr>users := (users s4)(tn \<mapsto> target1)\<rparr>)
                                               (name target1) of
                                          Inl e \<Rightarrow> Inl e
                                        | Inr s6 \<Rightarrow> Inr (s6, Some user_name)))))
                    else Inr (s3, Some user_name)) = Inr (s', r)"
            using h Some g True add up by (simp add: handle_user_action_def)
          show ?thesis
          proof (cases "affects_target info \<and> truthy target_user_name")
            case False
            with h3 w3 show ?thesis
              by (auto simp: truthy_def split: option.splits if_splits)
          next
            case yes: True
            then obtain tn where tn: "target_user_name = Some tn" "tn \<noteq> []"
              by (auto simp: truthy_def split: option.splits)
            show ?thesis
            proof (cases "get_or_create_user s3 tn target_user_type target_cdate")
              case (Inl e)
              with h3 yes tn show ?thesis by simp
            next
              case (Inr q)
              obtain s4 t0 where q: "q = (s4, t0)" by (cases q)
              have g4: "get_or_create_user s3 tn target_user_type target_cdate = Inr (s4, t0)"
                using Inr q by simp
              note w4 = well_named_get_or_create_user [OF w3 g4]
              show ?thesis
              proof (cases "add_action t0 atype ?adate False (if tdd \<noteq> 0 then tdd else dd)")
                case (Inl e)
                with h3 yes tn g4 show ?thesis by simp
              next
                case add4: (Inr t1)
                show ?thesis
                proof (cases "update_user_score (s4\<lparr>users := (users s4)(tn \<mapsto> t1)\<rparr>) (name t1)")
                  case (Inl e)
                  with h3 yes tn g4 add4 show ?thesis by simp
                next
                  case (Inr s6)
                  with h3 yes tn g4 add4 have "s6 = s'" by simp
                  with Inr have up4: "update_user_score (s4\<lparr>users := (users s4)(tn \<mapsto> t1)\<rparr>)
                                        (name t1) = Inr s'" by simp
                  show ?thesis using w4 add4 up4 by (rule well_named_step)
                qed
              qed
            qed
          qed
        qed
      qed
    qed
  qed
qed

lemma example_total_months:
  "total_months example_system kavita = 126" "total_months example_system newcomer = 0"
  by (simp_all add: total_months_def example_system_def kavita_def newcomer_def User_init_def
      example_year_month)

lemma example_recompute:
  "update_user_score example_registry ''Kavita'' = Inr example_recomputed"
proof -
  have u: "users example_registry ''Kavita'' = Some kavita"
    by (simp add: example_registry_def)
  have c: "date_sub_days (current_date example_registry) (history_days example_registry)
           = Inr 739420"
    by (simp add: example_registry_def example_system_def date_sub_days_def MINORD_def MAXORD_def)
  have tm: "total_months example_registry kavita = 126"
    using example_total_months(1) by (simp add: total_months_def example_registry_def)
  have b: "snd (calculate_age_score example_registry kavita) = 10"
    unfolding age_score_snd tm by simp
  have r: "rescored example_registry 739420 kavita = kavita_rescored"
    unfolding rescored_def b
    by (simp add: kavita_rescored_def kavita_def stale_login_def fresh_post_def activity_sum_def
        get_effective_score_def mk_info_def example_registry_def example_system_def
        get_badge_for_score_def BADGE_LEVELS_def Let_def)
  show ?thesis
    unfolding update_user_score_Some [OF u c] r
    by (simp add: example_registry_def example_recomputed_def)
qed

subsection \<open>The recomputed score is clamped\<close>

text \<open>
  C1: whenever the recompute \<open>update_user_score\<close> of a participant returns, the
  participant's stored score is \<open>max 0 (min 100 (activity sum + tenure bonus))\<close>, the
  activity sum being taken over the history the recompute leaves, and so lies between
  0 and 100.
\<close>

theorem recompute_score_clamped:
  assumes "update_user_score s n = Inr s'"
  shows "\<exists>u u'. users s n = Some u \<and> users s' n = Some u' \<and>
           score u' = max 0 (min 100 (activity_sum (current_date s) (action_history u')
                                      + snd (calculate_age_score s u)))
           \<and> 0 \<le> score u' \<and> score u' \<le> 100"
proof -
  from assms obtain u c where u: "users s n = Some u"
    and s': "s' = s\<lparr>users := (users s)(n \<mapsto> rescored s c u)\<rparr>"
    by (rule update_user_score_InrD)
  show ?thesis using u by (simp add: s' rescored_def Let_def)
qed

theorem recompute_score_clamped_witness:
  "update_user_score example_registry ''Kavita'' = Inr example_recomputed \<and>
   (\<exists>u u'. users example_registry ''Kavita'' = Some u \<and>
            users example_recomputed ''Kavita'' = Some u' \<and>
            score u' = max 0 (min 100 (activity_sum (current_date example_registry)
                                         (action_history u')
                                       + snd (calculate_age_score example_registry u))) \<and>
            0 \<le> score u' \<and> score u' \<le> 100)"
  using example_recompute recompute_score_clamped [OF example_recompute] by blast

subsection \<open>Unknown event types\<close>

text \<open>
  C2 (as amended): a submission whose event type is absent from the catalog raises
  nothing; it returns None to the caller and leaves the whole system, the registry
  included, as it was.
\<close>

theorem unknown_action_type_skipped:
  assumes "ACTION_WEIGHTS atype = None"
  shows "handle_user_action s user_name atype user_type action_date cdate
           target_user_name target_user_type target_cdate dd tdd = Inr (s, None)"
  using assms by (simp add: handle_user_action_def)

theorem unknown_action_type_skipped_witness:
  "ACTION_WEIGHTS ''TELEPORT'' = None \<and>
   handle_user_action example_registry ''Kavita'' ''TELEPORT'' (Some ''advertiser'') None None
      None None None 0 0 = Inr (example_registry, None)"
  using catalog_lookups(5) unknown_action_type_skipped [OF catalog_lookups(5)] by blast

text \<open>
  C2 as stated fails: for the unknown type \<open>TELEPORT\<close> the call returns normally, so
  no error of any kind reaches the caller.
\<close>

theorem unknown_action_type_counterexample:
  "ACTION_WEIGHTS ''TELEPORT'' = None \<and>
   handle_user_action example_system ''Trupti'' ''TELEPORT'' (Some ''common'') None None
      None None None 0 0 = Inr (example_system, None) \<and>
   handle_user_action example_system ''Trupti'' ''TELEPORT'' (Some ''common'') None None
      None None None 0 0 \<noteq> Inl (ValueError_not_defined ''TELEPORT'')"
  by (simp add: handle_user_action_def catalog_lookups)

subsection \<open>Tier classification\<close>

text \<open>
  On whole-number scores between 0 and 100 the scan of the tier table finds a tier.
\<close>

lemma tier_scan_on_integers:
  assumes "0 \<le> k" and "k \<le> 100"
  shows "\<exists>b. scan_badge_levels BADGE_LEVELS (real_of_int k) = Some b
             \<and> get_badge_for_score (real_of_int k) = Some b"
  using assms by (simp add: get_badge_for_score_def BADGE_LEVELS_def)

text \<open>The three submissions, one after the other.\<close>

lemma gap_step1:
  "handle_user_action example_system ''Asha'' ''AD_POSTED_MONEY'' (Some ''advertiser'')
     None None None None None 0 0 =
   Inr (example_system\<lparr>users := [''Asha'' \<mapsto> asha [posted_money] 18 (Some badge_New)]\<rparr>,
        Some ''Asha'')"
  by (simp add: dispatcher_defs catalog_lookups example_year_month example_system_def Let_def
      asha_def posted_money_def badge_New_def)

lemma gap_step2:
  "handle_user_action
     (example_system\<lparr>users := [''Asha'' \<mapsto> asha [posted_money] 18 (Some badge_New)]\<rparr>)
     ''Asha'' ''AD_POSTED_PAI'' (Some ''advertiser'') None None None None None 0 0 =
   Inr (example_system\<lparr>users :=
          [''Asha'' \<mapsto> asha [posted_money, posted_pai] 26 (Some badge_New)]\<rparr>,
        Some ''Asha'')"
  by (simp add: dispatcher_defs catalog_lookups example_year_month example_system_def Let_def
      asha_def posted_money_def posted_pai_def badge_New_def)

lemma gap_step3:
  "handle_user_action
     (example_system\<lparr>users :=
        [''Asha'' \<mapsto> asha [posted_money, posted_pai] 26 (Some badge_New)]\<rparr>)
     ''Asha'' ''RECEIVED_RATING'' (Some ''advertiser'') None None None None None 0 0 =
   Inr (example_system\<lparr>users :=
          [''Asha'' \<mapsto> asha [posted_money, posted_pai, received_rating] 29.5 None]\<rparr>,
        Some ''Asha'')"
  by (simp add: dispatcher_defs catalog_lookups example_year_month example_system_def Let_def
      asha_def posted_money_def posted_pai_def received_rating_def badge_New_def)

text \<open>
  C3: every score between 0 and 100 should fall in exactly one tier range, so that the
  scan succeeds and the tier is never undefined. The table's ranges are ranges of whole
  numbers and the score is a real number: an advertiser created on the current date
  who posts a paid ad, posts a coin ad and receives a rating, all on that date, is
  recomputed to the score 29.5, which no range contains; the scan fails, neither fallback
  applies, and the stored tier is None.
\<close>

theorem tier_gap_reached:
  "submit_all example_system
     [(''Asha'', ''AD_POSTED_MONEY'', ''advertiser''),
      (''Asha'', ''AD_POSTED_PAI'', ''advertiser''),
      (''Asha'', ''RECEIVED_RATING'', ''advertiser'')] =
   Inr (example_system\<lparr>users :=
          [''Asha'' \<mapsto> asha [posted_money, posted_pai, received_rating] 29.5 None]\<rparr>)
   \<and> score (asha [posted_money, posted_pai, received_rating] 29.5 None) = 29.5
   \<and> badge (asha [posted_money, posted_pai, received_rating] 29.5 None) = None
   \<and> (0::real) \<le> 29.5 \<and> (29.5::real) \<le> 100
   \<and> scan_badge_levels BADGE_LEVELS 29.5 = None
   \<and> get_badge_for_score 29.5 = None"
proof -
  have run: "submit_all example_system
     [(''Asha'', ''AD_POSTED_MONEY'', ''advertiser''),
      (''Asha'', ''AD_POSTED_PAI'', ''advertiser''),
      (''Asha'', ''RECEIVED_RATING'', ''advertiser'')] =
   Inr (example_system\<lparr>users :=
          [''Asha'' \<mapsto> asha [posted_money, posted_pai, received_rating] 29.5 None]\<rparr>)"
    by (simp add: submit_def gap_step1 gap_step2 gap_step3)
  have tier: "scan_badge_levels BADGE_LEVELS 29.5 = None" "get_badge_for_score 29.5 = None"
    by (simp_all add: get_badge_for_score_def BADGE_LEVELS_def)
  show ?thesis using run tier by (simp add: asha_def)
qed

subsection \<open>The effective score of a record\<close>

text \<open>
  C4: for every event record (built by \<open>UserAction_init\<close>, so with the weights of its
  catalog entry), the effective score as of a date is the role's weight (the base weight
  for an actor record, the target weight or 0 for a target record), times
  \<open>(1 - decay) ^ max 0 (as-of date - occurrence date)\<close> when the decay rate is positive
  and unchanged when it is 0, times \<open>delay_factor ^ delay_days\<close> when the type declares
  a delay factor and the delay is positive. Both factors apply together.
\<close>

theorem effective_score_formula:
  assumes "UserAction_init atype d act dd = Inr a"
  shows "ACTION_WEIGHTS atype = Some (weights a) \<and>
    get_effective_score a cur =
      (if act then action_score (weights a)
       else (case target_score (weights a) of Some t \<Rightarrow> t | None \<Rightarrow> 0))
      * (if decay (weights a) > 0 then (1 - decay (weights a)) ^ nat (max 0 (cur - d)) else 1)
      * (case delay_factor (weights a) of
           Some f \<Rightarrow> if dd > 0 then f ^ nat dd else 1
         | None \<Rightarrow> 1)"
proof -
  from assms obtain w where w: "ACTION_WEIGHTS atype = Some w"
    and a: "a = \<lparr>action_type = atype, date = d, actor = act, weights = w, delay_days = dd\<rparr>"
    by (auto simp: UserAction_init_def split: option.splits)
  have lt: "\<And>f. delay_factor w = Some f \<Longrightarrow> f < 1"
    using catalog_delay_factor_lt_1 [OF w] .
  show ?thesis
    using w lt by (auto simp: a get_effective_score_def Let_def max.commute split: option.splits)
qed

theorem effective_score_formula_witness:
  "UserAction_init ''AD_LIKED'' 739440 False 3 = Inr late_like \<and>
   get_effective_score late_like 739450 = 2 * 0.97 ^ 10 * 0.97 ^ 3"
proof -
  have h: "UserAction_init ''AD_LIKED'' 739440 False 3 = Inr late_like"
    by (simp add: UserAction_init_def catalog_lookups late_like_def)
  have "get_effective_score late_like 739450 = 2 * 0.97 ^ 10 * 0.97 ^ 3"
    using effective_score_formula [OF h, of 739450]
    by (simp add: late_like_def mk_info_def)
  with h show ?thesis by simp
qed

subsection \<open>Pruning\<close>

text \<open>
  C5: after a recompute, the participant's history is the old history restricted to the
  records dated on or after \<open>cutoff = current_date - history_days\<close>: every record
  dated before the cutoff is gone from the stored history, every other record is kept,
  and the score is computed from the kept records only.
\<close>

theorem recompute_prunes_history:
  assumes "update_user_score s n = Inr s'" and "users s n = Some u"
  shows "\<exists>u'. users s' n = Some u' \<and>
           action_history u' =
             filter (\<lambda>a. current_date s - history_days s \<le> date a) (action_history u) \<and>
           (\<forall>a \<in> set (action_history u).
              date a < current_date s - history_days s \<longrightarrow> a \<notin> set (action_history u')) \<and>
           (\<forall>a \<in> set (action_history u).
              current_date s - history_days s \<le> date a \<longrightarrow> a \<in> set (action_history u')) \<and>
           score u' =
             max 0 (min 100
               (activity_sum (current_date s)
                  (filter (\<lambda>a. current_date s - history_days s \<le> date a) (action_history u))
                + snd (calculate_age_score s u)))"
proof -
  from assms(1) obtain u0 c where u0: "users s n = Some u0"
    and c: "date_sub_days (current_date s) (history_days s) = Inr c"
    and s': "s' = s\<lparr>users := (users s)(n \<mapsto> rescored s c u0)\<rparr>"
    by (rule update_user_score_InrD)
  have cc: "c = current_date s - history_days s" using c by (rule date_sub_days_Inr)
  have uu: "u0 = u" using u0 assms(2) by simp
  show ?thesis by (auto simp: s' uu cc rescored_def Let_def)
qed

theorem recompute_prunes_history_witness:
  "update_user_score example_registry ''Kavita'' = Inr example_recomputed \<and>
   users example_registry ''Kavita'' = Some kavita \<and>
   (\<exists>u'. users example_recomputed ''Kavita'' = Some u' \<and>
          action_history kavita = [stale_login, fresh_post] \<and>
          action_history u' = [fresh_post] \<and>
          stale_login \<notin> set (action_history u') \<and> fresh_post \<in> set (action_history u'))"
proof -
  have u: "users example_registry ''Kavita'' = Some kavita"
    by (simp add: example_registry_def)
  from recompute_prunes_history [OF example_recompute u] obtain u' where
    u': "users example_recomputed ''Kavita'' = Some u'"
    and h: "action_history u' =
             filter (\<lambda>a. current_date example_registry - history_days example_registry \<le> date a)
                    (action_history kavita)"
    by blast
  have "action_history u' = [fresh_post]"
    unfolding h
    by (simp add: kavita_def stale_login_def fresh_post_def example_registry_def
        example_system_def)
  moreover have "stale_login \<noteq> fresh_post"
    by (simp add: stale_login_def fresh_post_def)
  ultimately show ?thesis using example_recompute u u' by (simp add: kavita_def)
qed

subsection \<open>The tenure bonus\<close>

text \<open>
  C6: the tenure bonus returned by \<open>calculate_age_score\<close> (and cached on the user) is
  20 times 0.5, 0.4, 0.3 or 0.15 according to whether the whole-month account age in
  years is at least 8, at least 5, at least 2 or less; it is one of 10, 8, 6 and 3, does
  not decrease when the account age grows, and is at least 3, which is its value for a
  participant created on the current date.
\<close>

theorem tenure_bonus_values:
  "snd (calculate_age_score s u) =
     20 * (if real_of_int (total_months s u) / 12 \<ge> 8 then 0.5
           else if real_of_int (total_months s u) / 12 \<ge> 5 then 0.4
           else if real_of_int (total_months s u) / 12 \<ge> 2 then 0.3 else 0.15)
   \<and> snd (calculate_age_score s u) \<in> {10, 8, 6, 3}
   \<and> (total_months s u \<le> total_months s' u' \<longrightarrow>
        snd (calculate_age_score s u) \<le> snd (calculate_age_score s' u'))
   \<and> (creation_date u = current_date s \<longrightarrow> snd (calculate_age_score s u) = 3)
   \<and> 3 \<le> snd (calculate_age_score s u)
   \<and> age_score_component (fst (calculate_age_score s u)) = snd (calculate_age_score s u)"
proof -
  have mono: "total_months s u \<le> total_months s' u' \<Longrightarrow>
        snd (calculate_age_score s u) \<le> snd (calculate_age_score s' u')"
    unfolding age_score_snd by (simp split: if_splits)
  have today: "creation_date u = current_date s \<Longrightarrow> snd (calculate_age_score s u) = 3"
    unfolding age_score_snd by (simp add: total_months_def)
  have vals: "snd (calculate_age_score s u) \<in> {10, 8, 6, 3}"
    unfolding age_score_snd by simp
  have lb: "3 \<le> snd (calculate_age_score s u)"
    unfolding age_score_snd by simp
  show ?thesis using mono today vals lb age_score_snd [of s u] age_score_fst [of s u] by simp
qed

theorem tenure_bonus_values_witness:
  "total_months example_system newcomer \<le> total_months example_system kavita \<and>
   creation_date newcomer = current_date example_system \<and>
   snd (calculate_age_score example_system newcomer) = 3 \<and>
   snd (calculate_age_score example_system newcomer)
     \<le> snd (calculate_age_score example_system kavita)"
proof -
  have m: "total_months example_system newcomer \<le> total_months example_system kavita"
    by (simp add: example_total_months)
  have c: "creation_date newcomer = current_date example_system"
    by (simp add: newcomer_def User_init_def example_system_def)
  from tenure_bonus_values [of example_system newcomer example_system kavita] m c
  show ?thesis by blast
qed

subsection \<open>Idempotence of the recompute\<close>

text \<open>
  C7: a second recompute of the same participant, with no event added and the clock
  not advanced in between, returns the very state the first one produced: the same
  score, the same pruned history and the same registry.
\<close>

theorem recompute_idempotent:
  assumes "update_user_score s n = Inr s'"
  shows "update_user_score s' n = Inr s'"
proof -
  from assms obtain u c where u: "users s n = Some u"
    and c: "date_sub_days (current_date s) (history_days s) = Inr c"
    and s': "s' = s\<lparr>users := (users s)(n \<mapsto> rescored s c u)\<rparr>"
    by (rule update_user_score_InrD)
  have u': "users s' n = Some (rescored s c u)" by (simp add: s')
  have c': "date_sub_days (current_date s') (history_days s') = Inr c" using c by (simp add: s')
  have b: "snd (calculate_age_score s' (rescored s c u)) = snd (calculate_age_score s u)"
    by (rule age_score_frame) (simp_all add: s' rescored_def Let_def)
  have cur: "current_date s' = current_date s" by (simp add: s')
  have fixp: "rescored s' c (rescored s c u) = rescored s c u"
    unfolding rescored_def [of s' c] b cur by (simp add: rescored_def Let_def)
  show ?thesis
    unfolding update_user_score_Some [OF u' c'] fixp by (simp add: s')
qed

theorem recompute_idempotent_witness:
  "update_user_score example_registry ''Kavita'' = Inr example_recomputed \<and>
   update_user_score example_recomputed ''Kavita'' = Inr example_recomputed"
  using example_recompute recompute_idempotent [OF example_recompute] by blast

subsection \<open>Policy rejection\<close>

text \<open>
  The resolution of the actor comes before the eligibility check: a supplied role class
  that conflicts with the registered one raises, whatever the event type allows.
\<close>

lemma role_mismatch_raises:
  assumes "ACTION_WEIGHTS atype = Some info" and "users s user_name = Some u"
    and "truthy user_type" and "type u \<noteq> user_type"
  shows "handle_user_action s user_name atype user_type action_date cdate
           target_user_name target_user_type target_cdate dd tdd =
         Inl (ValueError_type_mismatch user_name)"
  using assms by (simp add: handle_user_action_def get_or_create_user_def)

text \<open>
  C8: when the event type is in the catalog, the supplied role class does not conflict
  with the one the acting participant is registered under, and the acting participant's
  role class (the registered one, or the supplied one for a participant not yet
  registered) is not among the eligible roles, the call returns the acting participant
  without raising; no record is appended and nothing is recomputed: a registered
  participant and the whole system are unchanged, a participant registered by this call
  has an empty history and the score 0, and no other participant is touched.
\<close>

theorem ineligible_role_rejected:
  assumes "ACTION_WEIGHTS atype = Some info"
    and "\<forall>u. users s user_name = Some u \<longrightarrow> \<not> (truthy user_type \<and> type u \<noteq> user_type)"
    and "(case users s user_name of Some u \<Rightarrow> type u | None \<Rightarrow> user_type)
           \<notin> Some ` set (allowed_for info)"
  shows "\<exists>s'. handle_user_action s user_name atype user_type action_date cdate
           target_user_name target_user_type target_cdate dd tdd = Inr (s', Some user_name)
         \<and> (\<forall>n. n \<noteq> user_name \<longrightarrow> users s' n = users s n)
         \<and> current_date s' = current_date s
         \<and> (case users s user_name of
               Some u \<Rightarrow> s' = s
             | None \<Rightarrow> \<exists>a. users s' user_name = Some a \<and> action_history a = [] \<and> score a = 0)"
proof (cases "users s user_name")
  case None
  with assms show ?thesis
    by (simp add: handle_user_action_def get_or_create_user_new User_init_def)
next
  case (Some u)
  with assms show ?thesis
    by (simp add: handle_user_action_def get_or_create_user_old)
qed

theorem ineligible_role_rejected_witness:
  "users example_registry ''Kavita'' = Some kavita \<and> type kavita = Some ''advertiser'' \<and>
   handle_user_action example_registry ''Kavita'' ''AD_LIKED'' (Some ''advertiser'') None None
      None None None 0 0 = Inr (example_registry, Some ''Kavita'')"
proof -
  have u: "users example_registry ''Kavita'' = Some kavita"
    by (simp add: example_registry_def)
  have t: "type kavita = Some ''advertiser''" by (simp add: kavita_def)
  have h2: "\<forall>u. users example_registry ''Kavita'' = Some u \<longrightarrow>
              \<not> (truthy (Some ''advertiser'') \<and> type u \<noteq> Some ''advertiser'')"
    by (simp add: u t)
  have h3: "(case users example_registry ''Kavita'' of Some u \<Rightarrow> type u
             | None \<Rightarrow> Some ''advertiser'')
            \<notin> Some ` set (allowed_for (mk_info 1.0 (Some 2.0) 0.03 [''common''] True (Some 0.97)))"
    by (simp add: u t mk_info_def)
  from ineligible_role_rejected [OF catalog_lookups(1) h2 h3,
      of None None None None None 0 0]
  have "handle_user_action example_registry ''Kavita'' ''AD_LIKED'' (Some ''advertiser'')
          None None None None None 0 0 = Inr (example_registry, Some ''Kavita'')"
    by (auto simp: u)
  with u t show ?thesis by simp
qed

subsection \<open>Submissions with a secondary party\<close>

text \<open>
  C9: let the registry store every user under its own name, the event type declare a
  secondary party, the actor resolve to \<open>a0\<close> and be eligible, and a non-empty target
  identifier other than the actor's resolve to \<open>t0\<close>. Then the call returns the actor, and afterwards the actor's history is the
  recompute's pruning of the old history followed by one actor record \<open>ra\<close> with the
  given delay, the target's history is the pruning of its old history followed by one
  target record \<open>rt\<close> whose delay is \<open>tdd\<close> unless that is 0 (its default), in which
  case it is \<open>dd\<close>; when the action date is inside the history window each history is
  its pruned old history plus exactly that one record. Both participants are recomputed:
  score and tier of each are those of its new history.
\<close>

theorem dual_party_submission:
  assumes cat: "ACTION_WEIGHTS atype = Some info" and aff: "affects_target info"
    and actor: "get_or_create_user s user_name user_type cdate = Inr (s1, a0)"
    and elig: "type a0 \<in> Some ` set (allowed_for info)"
    and wn: "well_named s"
    and tn: "target_user_name = Some tn" "tn \<noteq> []" "tn \<noteq> user_name"
    and target: "get_or_create_user s tn target_user_type target_cdate = Inr (sx, t0)"
    and cutoff: "date_sub_days (current_date s) (history_days s) = Inr cutoff"
    and adate: "adate = (case action_date of Some d \<Rightarrow> d | None \<Rightarrow> current_date s)"
    and ra: "ra = \<lparr>action_type = atype, date = adate, actor = True, weights = info,
                   delay_days = dd\<rparr>"
    and rt: "rt = \<lparr>action_type = atype, date = adate, actor = False, weights = info,
                   delay_days = (if tdd \<noteq> 0 then tdd else dd)\<rparr>"
  shows "\<exists>s' a' t'.
           handle_user_action s user_name atype user_type action_date cdate
             target_user_name target_user_type target_cdate dd tdd = Inr (s', Some user_name)
         \<and> users s' user_name = Some a' \<and> users s' tn = Some t'
         \<and> action_history a' = filter (\<lambda>r. cutoff \<le> date r) (action_history a0 @ [ra])
         \<and> action_history t' = filter (\<lambda>r. cutoff \<le> date r) (action_history t0 @ [rt])
         \<and> (cutoff \<le> adate \<longrightarrow>
               action_history a' = filter (\<lambda>r. cutoff \<le> date r) (action_history a0) @ [ra]
             \<and> action_history t' = filter (\<lambda>r. cutoff \<le> date r) (action_history t0) @ [rt])
         \<and> score a' = max 0 (min 100 (activity_sum (current_date s) (action_history a')
                                       + snd (calculate_age_score s a0)))
         \<and> score t' = max 0 (min 100 (activity_sum (current_date s) (action_history t')
                                       + snd (calculate_age_score s t0)))
         \<and> badge a' = get_badge_for_score (score a')
         \<and> badge t' = get_badge_for_score (score t')"
proof -
  have aname: "name a0 = user_name"
    by (rule well_named_get_or_create_user(2) [OF wn actor])
  have tname: "name t0 = tn"
    by (rule well_named_get_or_create_user(2) [OF wn target])
  from add_action_catalog [OF cat, of a0 adate True dd] obtain a1 where
    a1: "add_action a0 atype adate True dd = Inr a1"
    and ha1: "action_history a1 = action_history a0 @ [ra]"
    and na1: "name a1 = user_name" and ca1: "creation_date a1 = creation_date a0"
    using aname ra by auto
  define s2 where "s2 = s1\<lparr>users := (users s1)(user_name \<mapsto> a1)\<rparr>"
  have s2: "s2 = s\<lparr>users := (users s)(user_name \<mapsto> a1)\<rparr>"
    unfolding s2_def by (rule get_or_create_user_InrD(2) [OF actor])
  have u2: "users s2 user_name = Some a1" by (simp add: s2)
  have c2: "date_sub_days (current_date s2) (history_days s2) = Inr cutoff"
    using cutoff by (simp add: s2)
  define s3 where "s3 = s2\<lparr>users := (users s2)(user_name \<mapsto> rescored s2 cutoff a1)\<rparr>"
  have up2: "update_user_score s2 user_name = Inr s3"
    unfolding s3_def by (rule update_user_score_Some [OF u2 c2])
  have s3t: "users s3 tn = users s tn" using tn(3) by (simp add: s3_def s2)
  have s3c: "current_date s3 = current_date s" by (simp add: s3_def s2)
  from get_or_create_user_transfer [OF target s3t s3c] obtain s4 where
    g4: "get_or_create_user s3 tn target_user_type target_cdate = Inr (s4, t0)"
    and s4: "\<And>x. s4\<lparr>users := (users s4)(tn \<mapsto> x)\<rparr> = s3\<lparr>users := (users s3)(tn \<mapsto> x)\<rparr>"
    by blast
  from add_action_catalog [OF cat, of t0 adate False "if tdd \<noteq> 0 then tdd else dd"]
  obtain t1 where
    t1: "add_action t0 atype adate False (if tdd \<noteq> 0 then tdd else dd) = Inr t1"
    and ht1: "action_history t1 = action_history t0 @ [rt]"
    and nt1: "name t1 = tn" and ct1: "creation_date t1 = creation_date t0"
    using tname rt by auto
  define s5 where "s5 = s3\<lparr>users := (users s3)(tn \<mapsto> t1)\<rparr>"
  have u5: "users s5 tn = Some t1" by (simp add: s5_def)
  have c5: "date_sub_days (current_date s5) (history_days s5) = Inr cutoff"
    using cutoff by (simp add: s5_def s3_def s2)
  define s6 where "s6 = s5\<lparr>users := (users s5)(tn \<mapsto> rescored s5 cutoff t1)\<rparr>"
  have up5: "update_user_score s5 tn = Inr s6"
    unfolding s6_def by (rule update_user_score_Some [OF u5 c5])
  have run: "handle_user_action s user_name atype user_type action_date cdate
             target_user_name target_user_type target_cdate dd tdd = Inr (s6, Some user_name)"
    using cat aff actor elig a1 na1 up2 tn g4 t1 nt1 up5
    by (simp add: handle_user_action_def adate [symmetric] s2_def [symmetric] s4
                  s5_def [symmetric])
  have ua: "users s6 user_name = Some (rescored s2 cutoff a1)"
    using tn(3) by (simp add: s6_def s5_def s3_def)
  have ut: "users s6 tn = Some (rescored s5 cutoff t1)" by (simp add: s6_def)
  have ba: "snd (calculate_age_score s2 a1) = snd (calculate_age_score s a0)"
    by (rule age_score_frame) (simp_all add: ca1 s2)
  have bt: "snd (calculate_age_score s5 t1) = snd (calculate_age_score s t0)"
    by (rule age_score_frame) (simp_all add: ct1 s5_def s3_def s2)
  have cur2: "current_date s2 = current_date s" by (simp add: s2)
  have cur5: "current_date s5 = current_date s" by (simp add: s5_def s3_def s2)
  have da: "date ra = adate" and dt: "date rt = adate" by (simp_all add: ra rt)
  show ?thesis
    using run ua ut
    by (simp add: rescored_facts ha1 ht1 ba bt cur2 cur5 da dt)
qed

theorem dual_party_submission_witness:
  "\<exists>s' a' t'.
     handle_user_action example_system ''Trupti'' ''AD_LIKED'' (Some ''common'') None None
       (Some ''Sai'') (Some ''advertiser'') None 0 0 = Inr (s', Some ''Trupti'')
     \<and> users s' ''Trupti'' = Some a' \<and> users s' ''Sai'' = Some t'
     \<and> action_history a' = [like_of_actor] \<and> action_history t' = [like_of_target]"
proof -
  let ?info = "mk_info 1.0 (Some 2.0) 0.03 [''common''] True (Some 0.97)"
  let ?sai = "User_init ''Sai'' 739450 (Some ''advertiser'')"
  have aff: "affects_target ?info" by (simp add: mk_info_def)
  have actor: "get_or_create_user example_system ''Trupti'' (Some ''common'') None =
                 Inr (example_system\<lparr>users := [''Trupti'' \<mapsto> newcomer]\<rparr>, newcomer)"
    by (simp add: get_or_create_user_def example_system_def newcomer_def Let_def)
  have elig: "type newcomer \<in> Some ` set (allowed_for ?info)"
    by (simp add: newcomer_def User_init_def mk_info_def)
  have tn: "Some ''Sai'' = Some ''Sai''" "''Sai'' \<noteq> []" "''Sai'' \<noteq> ''Trupti''" by simp_all
  have target: "get_or_create_user example_system ''Sai'' (Some ''advertiser'') None =
                 Inr (example_system\<lparr>users := [''Sai'' \<mapsto> ?sai]\<rparr>, ?sai)"
    by (simp add: get_or_create_user_def example_system_def Let_def)
  have cutoff: "date_sub_days (current_date example_system) (history_days example_system)
                = Inr 739420"
    by (simp add: example_system_def date_sub_days_def MINORD_def MAXORD_def)
  from dual_party_submission [OF catalog_lookups(1) aff actor elig well_named_empty tn target
      cutoff refl refl refl, of None 0 0]
  show ?thesis
    by (auto simp: example_system_def newcomer_def User_init_def like_of_actor_def
        like_of_target_def)
qed

subsection \<open>A rejected submission still registers the actor\<close>

text \<open>
  C10: when the acting participant is not yet registered, the event type is in the
  catalog and the supplied role class is not eligible for it, the call returns the
  actor after adding it to the registry with the supplied role class, an empty history,
  the score 0 and no tier; nothing else changes.
\<close>

theorem rejected_submission_registers_actor:
  assumes "users s user_name = None"
    and "ACTION_WEIGHTS atype = Some info"
    and "user_type \<notin> Some ` set (allowed_for info)"
  shows "handle_user_action s user_name atype user_type action_date cdate
           target_user_name target_user_type target_cdate dd tdd =
         Inr (s\<lparr>users := (users s)(user_name \<mapsto>
                 \<lparr>name = user_name, type = user_type,
                  creation_date = (case cdate of Some c \<Rightarrow> c | None \<Rightarrow> current_date s),
                  action_history = [], score = 0, badge = None, age_score_component = 0,
                  last_action_date = None\<rparr>)\<rparr>, Some user_name)"
  using assms
  by (simp add: handle_user_action_def get_or_create_user_new User_init_def)

theorem rejected_submission_registers_actor_witness:
  "users example_system ''Sai'' = None \<and>
   handle_user_action example_system ''Sai'' ''AD_LIKED'' (Some ''advertiser'') None None
      None None None 0 0 =
   Inr (example_system\<lparr>users := [''Sai'' \<mapsto>
          \<lparr>name = ''Sai'', type = Some ''advertiser'', creation_date = 739450,
           action_history = [], score = 0, badge = None, age_score_component = 0,
           last_action_date = None\<rparr>]\<rparr>, Some ''Sai'')"
proof -
  have n: "users example_system ''Sai'' = None" by (simp add: example_system_def)
  have e: "Some ''advertiser''
             \<notin> Some ` set (allowed_for (mk_info 1.0 (Some 2.0) 0.03 [''common''] True (Some 0.97)))"
    by (simp add: mk_info_def)
  from rejected_submission_registers_actor [OF n catalog_lookups(1) e,
      of None None None None None 0 0]
  show ?thesis using n by (simp add: example_system_def)
qed

end
